theory Spec2Isabelle
  imports Main "HOL-Library.AList"
begin

section \<open>Strings as the scraper uses them\<close>

text \<open>
  Python strings are modelled as \<open>string\<close> (lists of 8-bit characters). The scraper only
  compares against ASCII keywords, so \<open>str.lower\<close> is the ASCII lowercasing, \<open>in\<close> on
  strings is the substring test and \<open>str.strip\<close> removes ASCII white space.
\<close>

definition lower_char :: "char \<Rightarrow> char" where
  "lower_char c =
     (case map_of (zip ''ABCDEFGHIJKLMNOPQRSTUVWXYZ'' ''abcdefghijklmnopqrstuvwxyz'') c of
        Some d \<Rightarrow> d
      | None \<Rightarrow> c)"

definition lower :: "string \<Rightarrow> string" where
  "lower s = map lower_char s"

fun starts_with :: "string \<Rightarrow> string \<Rightarrow> bool" where
  "starts_with [] s = True"
| "starts_with (p # ps) [] = False"
| "starts_with (p # ps) (c # cs) = (p = c \<and> starts_with ps cs)"

text \<open>\<open>contains sub s\<close> is Python's \<open>sub in s\<close>.\<close>

fun contains :: "string \<Rightarrow> string \<Rightarrow> bool" where
  "contains sub [] = (sub = [])"
| "contains sub (c # cs) = (starts_with sub (c # cs) \<or> contains sub cs)"

text \<open>\<open>any (k in s for k in ks)\<close>.\<close>

fun any_in :: "string list \<Rightarrow> string \<Rightarrow> bool" where
  "any_in [] s = False"
| "any_in (k # ks) s = (contains k s \<or> any_in ks s)"

definition is_space :: "char \<Rightarrow> bool" where
  "is_space c = (c \<in> set [CHR '' '', CHR 0x09, CHR 0x0A, CHR 0x0B, CHR 0x0C, CHR 0x0D,
                            CHR 0x1C, CHR 0x1D, CHR 0x1E, CHR 0x1F])"

definition strip :: "string \<Rightarrow> string" where
  "strip s = rev (dropWhile is_space (rev (dropWhile is_space s)))"

definition is_digit :: "char \<Rightarrow> bool" where
  "is_digit c = (c \<in> set ''0123456789'')"

text \<open>\<open>str(n)\<close> for a non-negative integer, as the f-strings of the scraper format it.\<close>

fun str_of_nat :: "nat \<Rightarrow> string" where
  "str_of_nat n =
     (if n < 10 then [''0123456789'' ! n]
      else str_of_nat (n div 10) @ [''0123456789'' ! (n mod 10)])"

declare str_of_nat.simps [simp del]

section \<open>URLs and paths: the library functions the materializer calls\<close>

text \<open>
  \<open>urlparse(url).path\<close> and \<open>urlparse(url).query\<close> of \<open>urllib.parse\<close>: leading control
  characters and blanks are dropped, tab and newline characters removed, a scheme is split
  off at the first colon when everything before it is a scheme character and the URL starts
  with a letter, a network location after \<open>//\<close> ends at the first of \<open>/ ? #\<close>, the fragment
  starts at the first \<open>#\<close>, the query at the first \<open>?\<close>, and for the schemes that use
  parameters the path ends at the first \<open>;\<close> of its last segment. Every URL of a
  \<open>DocumentLink\<close> comes out of \<open>urljoin\<close>, which has parsed it already, so the
  \<open>ValueError\<close> of an unbalanced IPv6 bracket cannot occur here.
\<close>

definition scheme_chars :: "string" where
  "scheme_chars =
     ''abcdefghijklmnopqrstuvwxyzABCDEFGHIJKLMNOPQRSTUVWXYZ0123456789+-.''"

definition ascii_letters :: "string" where
  "ascii_letters = ''abcdefghijklmnopqrstuvwxyzABCDEFGHIJKLMNOPQRSTUVWXYZ''"

definition uses_params :: "string list" where
  "uses_params = ['''', ''ftp'', ''hdl'', ''prospero'', ''http'', ''imap'', ''https'',
                  ''shttp'', ''rtsp'', ''rtspu'', ''sip'', ''sips'', ''mms'', ''sftp'', ''tel'']"

definition url_clean :: "string \<Rightarrow> string" where
  "url_clean url =
     filter (\<lambda>c. c \<notin> set [CHR 0x09, CHR 0x0A, CHR 0x0D])
       (dropWhile (\<lambda>c. (of_char c :: nat) \<le> 32) url)"

text \<open>The scheme and the rest of the URL after it.\<close>

definition split_scheme :: "string \<Rightarrow> string \<times> string" where
  "split_scheme url =
     (let pre = takeWhile (\<lambda>c. c \<noteq> CHR '':'') url in
      if CHR '':'' \<in> set url \<and> pre \<noteq> [] \<and> hd pre \<in> set ascii_letters
         \<and> filter (\<lambda>c. c \<notin> set scheme_chars) pre = []
      then (lower pre, drop (Suc (length pre)) url)
      else ('''', url))"

text \<open>What is left once the network location is split off.\<close>

definition drop_netloc :: "string \<Rightarrow> string" where
  "drop_netloc url =
     (if take 2 url = ''//''
      then dropWhile (\<lambda>c. c \<notin> set [CHR ''/'', CHR ''?'', CHR ''#'']) (drop 2 url)
      else url)"

definition last_segment :: "string \<Rightarrow> string" where
  "last_segment p = rev (takeWhile (\<lambda>c. c \<noteq> CHR ''/'') (rev p))"

definition split_params :: "string \<Rightarrow> string" where
  "split_params p =
     take (length p - length (last_segment p)) p
       @ takeWhile (\<lambda>c. c \<noteq> CHR '';'') (last_segment p)"

definition urlparse_path :: "string \<Rightarrow> string" where
  "urlparse_path url =
     (let (scheme, rest) = split_scheme (url_clean url);
          no_frag = takeWhile (\<lambda>c. c \<noteq> CHR ''#'') (drop_netloc rest);
          p = takeWhile (\<lambda>c. c \<noteq> CHR ''?'') no_frag
      in if scheme \<in> set uses_params then split_params p else p)"

definition urlparse_query :: "string \<Rightarrow> string" where
  "urlparse_query url =
     (let (scheme, rest) = split_scheme (url_clean url);
          no_frag = takeWhile (\<lambda>c. c \<noteq> CHR ''#'') (drop_netloc rest)
      in drop 1 (dropWhile (\<lambda>c. c \<noteq> CHR ''?'') no_frag))"

text \<open>
  \<open>os.path.splitext(p)[1]\<close>: the extension starts at the last dot of the last path
  segment, unless only dots (or nothing) stand before it in that segment.
\<close>

definition splitext_ext :: "string \<Rightarrow> string" where
  "splitext_ext p =
     (let name = last_segment p;
          after = rev (takeWhile (\<lambda>c. c \<noteq> CHR ''.'') (rev name));
          stem = take (length name - Suc (length after)) name
      in if CHR ''.'' \<in> set name \<and> filter (\<lambda>c. c \<noteq> CHR ''.'') stem \<noteq> []
         then CHR ''.'' # after
         else '''')"

section \<open>The file materializer: folder and extension of a document link\<close>

text \<open>
  A \<open>DocumentLink\<close> is the dictionary the extractors build. The key \<open>force_pdf\<close> is read
  with \<open>item.get('force_pdf', False)\<close>, so an absent key is \<open>False\<close>.
\<close>

record doc_link =
  dl_category :: string
  dl_text :: string
  dl_url :: string
  dl_force_pdf :: bool

type_synonym path = "string list"








text \<open>
  \<open>re.search(r"[?&]Id=(\d+)", s)\<close>: the digits of the leftmost match.
\<close>

fun icra_id :: "string \<Rightarrow> string option" where
  "icra_id [] = None"
| "icra_id (c # cs) =
     (if (c = CHR ''?'' \<or> c = CHR ''&'') \<and> starts_with ''Id='' cs
         \<and> takeWhile is_digit (drop 3 cs) \<noteq> []
      then Some (takeWhile is_digit (drop 3 cs))
      else icra_id cs)"

text \<open>
  The rewrite of an ICRA rationale page to the PDF endpoint: the URL and the flag
  \<open>force_pdf\<close> after it.
\<close>

definition icra_rewrite :: "doc_link \<Rightarrow> string \<times> bool" where
  "icra_rewrite item =
     (if dl_category item = ''credit_ratings''
         \<and> contains ''icra.in/Rationale/ShowRationaleReport'' (dl_url item)
      then (case icra_id (CHR ''?'' # urlparse_query (dl_url item)) of
              Some i \<Rightarrow> (''https://www.icra.in/Rating/GetRationalReportFilePdf?Id='' @ i, True)
            | None \<Rightarrow> (dl_url item, dl_force_pdf item))
      else (dl_url item, dl_force_pdf item))"

text \<open>The choice of \<open>ext\<close> from \<open>force_pdf\<close>, \<open>parsed_ext\<close> and \<open>full_url\<close>.\<close>

definition choose_ext :: "bool \<Rightarrow> string \<Rightarrow> string \<Rightarrow> string" where
  "choose_ext force_pdf parsed_ext full_url =
     (if force_pdf then ''.pdf''
      else if parsed_ext \<in> set [''.pdf''] then ''.pdf''
      else if parsed_ext \<in> set [''.htm'', ''.html''] then ''.html''
      else if parsed_ext \<in> set [''.aspx'', ''.php'', '''']
           then (if contains ''.pdf'' (lower full_url) then ''.pdf'' else ''.html'')
      else parsed_ext)"

text \<open>\<open>parsed_ext\<close> of a URL: \<open>os.path.splitext(urlparse(full_url).path)[1].lower()\<close>.\<close>

definition parsed_ext :: "string \<Rightarrow> string" where
  "parsed_ext full_url = lower (splitext_ext (urlparse_path full_url))"

text \<open>The extension the loop of \<open>scrape_screener_company\<close> gives the file of an item.\<close>

definition item_ext :: "doc_link \<Rightarrow> string" where
  "item_ext item =
     (let (full_url, force_pdf) = icra_rewrite item
      in choose_ext force_pdf (parsed_ext full_url) full_url)"

section \<open>The table extractor\<close>

text \<open>
  \<open>clean_filename\<close>: the characters \<open>< > : " / \ | ? *\<close> are removed, the text is
  stripped, every run of white space becomes one underscore, slashes become underscores
  and the result is cut to 150 characters.
\<close>

function squash_spaces :: "string \<Rightarrow> string" where
  "squash_spaces [] = []"
| "squash_spaces (c # cs) =
     (if is_space c then CHR ''_'' # squash_spaces (dropWhile is_space cs)
      else c # squash_spaces cs)"
  by pat_completeness auto
termination
  by (relation "measure length") (auto simp: length_dropWhile_le less_Suc_eq_le)

definition clean_filename :: "string \<Rightarrow> string" where
  "clean_filename t =
     take 150
       (map (\<lambda>c. if c = CHR ''/'' \<or> c = CHR 0x5C then CHR ''_'' else c)
         (squash_spaces
           (strip (filter (\<lambda>c. c \<notin> set [CHR ''<'', CHR ''>'', CHR '':'', CHR 0x22, CHR ''/'',
                                           CHR 0x5C, CHR ''|'', CHR ''?'', CHR ''*'']) t))))"

text \<open>\<open>sep.join(xs)\<close>.\<close>

fun join :: "string \<Rightarrow> string list \<Rightarrow> string" where
  "join sep [] = []"
| "join sep [x] = x"
| "join sep (x # y # ys) = x @ sep @ join sep (y # ys)"

text \<open>
  A parsed table: the column labels and the data rows, every cell as \<open>astype(str)\<close>
  renders it. \<open>df.shape\<close> is the number of rows and the number of columns.
\<close>

record data_frame =
  df_columns :: "string list"
  df_rows :: "string list list"

definition shape :: "data_frame \<Rightarrow> nat \<times> nat" where
  "shape df = (length (df_rows df), length (df_columns df))"

text \<open>\<open>df.iloc[:, 0].astype(str).tolist()\<close>.\<close>

definition first_column :: "data_frame \<Rightarrow> string list" where
  "first_column df = map (\<lambda>r. case r of [] \<Rightarrow> [] | c # _ \<Rightarrow> c) (df_rows df)"

text \<open>
  A \<open><table>\<close> element as the loop sees it: the heading \<open>extract_section_heading\<close> found
  for it (\<open>None\<close> when there is none) and the frame \<open>pd.read_html(str(table))[0]\<close>, which
  is \<open>None\<close> when the parser raises.
\<close>

record html_table =
  tb_section :: "string option"
  tb_parsed :: "data_frame option"

text \<open>The keyword rules for a table without a heading, in \<open>scraperv1.py\<close>.\<close>

definition keyword_name :: "nat \<Rightarrow> string \<Rightarrow> string" where
  "keyword_name idx first_col_text =
     (if any_in [''sales'', ''revenue'', ''operating profit'', ''expenses''] first_col_text
        then ''Profit_Loss''
      else if any_in [''equity'', ''reserves'', ''assets'', ''liabilities'', ''borrowings'']
                first_col_text
        then ''Balance_Sheet''
      else if any_in [''cash from operating'', ''cash from investing'', ''cash from financing'']
                first_col_text
        then ''Cash_Flows''
      else if any_in [''debtor days'', ''roce'', ''roe'', ''working capital''] first_col_text
        then ''Ratios''
      else if contains ''sep'' first_col_text \<or> contains ''dec'' first_col_text
              \<or> contains ''jun'' first_col_text
        then ''Quarterly_Results''
      else if contains ''promoter'' first_col_text \<or> contains ''fii'' first_col_text
              \<or> contains ''dii'' first_col_text
        then ''Shareholding_Pattern''
      else ''Table_'' @ str_of_nat idx)"

text \<open>The same rules in \<open>scraper.py\<close>, which has no shareholding rule.\<close>

definition scraper_keyword_name :: "nat \<Rightarrow> string \<Rightarrow> string" where
  "scraper_keyword_name idx first_col_text =
     (if any_in [''sales'', ''revenue'', ''operating profit'', ''expenses''] first_col_text
        then ''Profit_Loss''
      else if any_in [''equity'', ''reserves'', ''assets'', ''liabilities'', ''borrowings'']
                first_col_text
        then ''Balance_Sheet''
      else if any_in [''cash from operating'', ''cash from investing'', ''cash from financing'']
                first_col_text
        then ''Cash_Flows''
      else if any_in [''debtor days'', ''roce'', ''roe'', ''working capital''] first_col_text
        then ''Ratios''
      else if contains ''sep'' first_col_text \<or> contains ''dec'' first_col_text
              \<or> contains ''jun'' first_col_text
        then ''Quarterly_Results''
      else ''Table_'' @ str_of_nat idx)"

text \<open>
  \<open>base_name\<close>: the cleaned heading when there is a non-empty one, else the keyword
  rules on the first five cells of the first column. The first argument is the keyword
  rule of the scraper.
\<close>

definition base_name_of ::
  "(nat \<Rightarrow> string \<Rightarrow> string) \<Rightarrow> nat \<Rightarrow> string option \<Rightarrow> data_frame \<Rightarrow> string" where
  "base_name_of rules idx section df =
     (case section of
        Some s \<Rightarrow>
          if s \<noteq> [] then clean_filename s
          else rules idx (lower (join '' '' (take 5 (first_column df))))
      | None \<Rightarrow> rules idx (lower (join '' '' (take 5 (first_column df)))))"

text \<open>
  The loop \<open>while name in tables_saved: name = f"{base_name}_{counter}"; counter += 1\<close>,
  started with \<open>name = base_name\<close> and \<open>counter = 1\<close>.
\<close>

function unique_name :: "string \<Rightarrow> string list \<Rightarrow> string \<Rightarrow> nat \<Rightarrow> string" where
  "unique_name base_name saved name counter =
     (if name \<in> set saved
      then unique_name base_name saved (base_name @ ''_'' @ str_of_nat counter) (Suc counter)
      else name)"
  by pat_completeness auto

lemma str_of_nat_bound: "n < 10 ^ length (str_of_nat n)"
proof (induction n rule: str_of_nat.induct)
  case (1 n)
  show ?case
  proof (cases "n < 10")
    case True
    then show ?thesis by (simp add: str_of_nat.simps)
  next
    case False
    with 1 have "n div 10 < 10 ^ length (str_of_nat (n div 10))" by simp
    then have "n < 10 * 10 ^ length (str_of_nat (n div 10))" by simp
    with False show ?thesis by (simp add: str_of_nat.simps [of n])
  qed
qed

lemma saved_suffix_bound:
  assumes "b @ ''_'' @ str_of_nat n \<in> set saved"
  shows "n < 10 ^ length (concat saved)"
proof -
  from assms obtain xs ys where "saved = xs @ (b @ ''_'' @ str_of_nat n) # ys"
    by (auto simp: in_set_conv_decomp)
  then have "length (str_of_nat n) \<le> length (concat saved)" by simp
  then have "(10::nat) ^ length (str_of_nat n) \<le> 10 ^ length (concat saved)"
    by (simp add: power_increasing)
  with str_of_nat_bound [of n] show ?thesis by (rule less_le_trans)
qed

termination unique_name
proof (relation "measure (\<lambda>(b, saved, name, counter).
      (10 ^ length (concat saved) - counter) + (if name \<in> set saved then 1 else 0))")
  show "wf (measure (\<lambda>(b, saved, name, counter).
      (10 ^ length (concat saved) - counter) + (if name \<in> set saved then 1 else 0)))"
    by simp
next
  fix base_name :: string and saved :: "string list" and name :: string and counter :: nat
  assume "name \<in> set saved"
  then show "((base_name, saved, base_name @ ''_'' @ str_of_nat counter, Suc counter),
              (base_name, saved, name, counter))
      \<in> measure (\<lambda>(b, saved, name, counter).
          (10 ^ length (concat saved) - counter) + (if name \<in> set saved then 1 else 0))"
    using saved_suffix_bound [of base_name counter saved] by auto
qed

declare unique_name.simps [simp del]

text \<open>
  What the loop over the tables keeps: the dictionary \<open>tables_saved\<close> (name to shape, in
  insertion order) and the CSV files written, by path.
\<close>

record table_state =
  tables_saved :: "(string \<times> nat \<times> nat) list"
  csv_files :: "(path \<times> data_frame) list"

text \<open>
  One pass of the loop body for the table with index \<open>idx\<close>. A parser error is caught
  and the table is skipped; so is a frame with fewer than two rows or two columns.
\<close>

definition process_table_with ::
  "(nat \<Rightarrow> string \<Rightarrow> string) \<Rightarrow> path \<Rightarrow> nat \<Rightarrow> html_table \<Rightarrow> table_state \<Rightarrow> table_state" where
  "process_table_with rules tables_folder idx tbl st =
     (case tb_parsed tbl of
        None \<Rightarrow> st
      | Some df \<Rightarrow>
          if fst (shape df) < 2 \<or> snd (shape df) < 2 then st
          else
            let base_name = base_name_of rules idx (tb_section tbl) df;
                name = unique_name base_name (map fst (tables_saved st)) base_name 1;
                filepath = tables_folder @ [name @ ''.csv'']
            in st\<lparr>csv_files := AList.update filepath df (csv_files st),
                  tables_saved := AList.update name (shape df) (tables_saved st)\<rparr>)"

definition process_table :: "path \<Rightarrow> nat \<Rightarrow> html_table \<Rightarrow> table_state \<Rightarrow> table_state" where
  "process_table = process_table_with keyword_name"

definition scraper_process_table ::
  "path \<Rightarrow> nat \<Rightarrow> html_table \<Rightarrow> table_state \<Rightarrow> table_state" where
  "scraper_process_table = process_table_with scraper_keyword_name"


section \<open>Downloading a document\<close>

text \<open>
  A path is the list of its parts, the file name last. \<open>Path.suffix\<close> starts at the last
  dot of the name, when that dot is neither the first nor the last character of the name;
  \<open>Path.with_suffix\<close> replaces it, and raises \<open>ValueError\<close> on an empty name.
\<close>

datatype py_error = UnboundLocalError | ValueError

definition path_name :: "path \<Rightarrow> string" where
  "path_name p = (case rev p of [] \<Rightarrow> '''' | n # _ \<Rightarrow> n)"

definition path_suffix :: "path \<Rightarrow> string" where
  "path_suffix p =
     (let name = path_name p;
          after = rev (takeWhile (\<lambda>c. c \<noteq> CHR ''.'') (rev name))
      in if CHR ''.'' \<in> set name \<and> after \<noteq> [] \<and> Suc (length after) < length name
         then CHR ''.'' # after
         else '''')"

definition with_suffix :: "path \<Rightarrow> string \<Rightarrow> py_error + path" where
  "with_suffix p sfx =
     (let name = path_name p in
      if name = [] then Inl ValueError
      else Inr (butlast p @ [take (length name - length (path_suffix p)) name @ sfx]))"

definition ends_with :: "string \<Rightarrow> string \<Rightarrow> bool" where
  "ends_with suf s = starts_with (rev suf) (rev s)"

text \<open>
  What the world answers to one call of \<open>download_file\<close>: whether the India Ratings and the
  CRISIL formatter succeed (each raises otherwise), the \<open>Content-Type\<close> header of the
  \<open>HEAD\<close> response (\<open>None\<close> when \<open>requests.head\<close> raises), the body of the \<open>GET\<close> response
  (\<open>None\<close> when the request or \<open>raise_for_status\<close> raises), and the text that reading a
  file of given bytes as UTF-8 with \<open>errors='ignore'\<close> yields (\<open>None\<close> when the read
  raises). The files the two formatters write are not part of the model.
\<close>

record world =
  india_scraper :: bool
  crisil_scraper :: bool
  head_probe :: "string option"
  get_body :: "string option"
  read_text :: "string \<Rightarrow> string option"

datatype event =
  IndiaRatingsScrape | CrisilScrape | Head | Get | Write path | Unlink path | PrintError

text \<open>
  The result of a call: the value returned, the files on disk (path to bytes) and the
  calls made, in order.
\<close>

record outcome =
  ok :: bool
  files :: "(path \<times> string) list"
  events :: "event list"

definition error_words :: "string list" where
  "error_words = [''error'', ''not found'', ''404'', ''access denied'']"

text \<open>
  The adjustment of the extension in \<open>scraperv1.py\<close>. \<open>is_pdf\<close> is \<open>None\<close> when the name was
  never bound, which is the case when the \<open>HEAD\<close> request raised: reading it then raises
  \<open>UnboundLocalError\<close>.
\<close>

definition adjust_path :: "bool option \<Rightarrow> string \<Rightarrow> path \<Rightarrow> py_error + path" where
  "adjust_path is_pdf content_type save_path =
     (let sfx = lower (path_suffix save_path) in
      if sfx \<notin> set [''.pdf'', ''.html'', ''.htm''] then
        (case is_pdf of
           None \<Rightarrow> Inl UnboundLocalError
         | Some True \<Rightarrow> with_suffix save_path ''.pdf''
         | Some False \<Rightarrow>
             if contains ''text/html'' content_type \<or> sfx \<in> set [''.aspx'', ''.php'', '''']
             then with_suffix save_path ''.html''
             else Inr save_path)
      else if sfx \<in> set [''.aspx'', ''.php''] then
        (case is_pdf of
           None \<Rightarrow> Inl UnboundLocalError
         | Some b \<Rightarrow> with_suffix save_path (if b then ''.pdf'' else ''.html''))
      else Inr save_path)"

text \<open>
  The \<open>GET\<close>, the write and the check of a small file in \<open>scraperv1.py\<close> (threshold 500
  bytes; an error while reading the file back is passed over), after the calls \<open>evs\<close>.
\<close>

definition fetch :: "world \<Rightarrow> path \<Rightarrow> (path \<times> string) list \<Rightarrow> event list \<Rightarrow> outcome" where
  "fetch w save_path fs evs =
     (case get_body w of
        None \<Rightarrow> \<lparr>ok = False, files = fs, events = evs @ [Get, PrintError]\<rparr>
      | Some body \<Rightarrow>
          let fs1 = AList.update save_path body fs;
              evs1 = evs @ [Get, Write save_path]
          in if length body < 500 then
               (case read_text w body of
                  None \<Rightarrow> \<lparr>ok = True, files = fs1, events = evs1\<rparr>
                | Some content \<Rightarrow>
                    if any_in error_words (lower content)
                    then \<lparr>ok = False, files = AList.delete save_path fs1,
                          events = evs1 @ [Unlink save_path]\<rparr>
                    else \<lparr>ok = True, files = fs1, events = evs1\<rparr>)
             else \<lparr>ok = True, files = fs1, events = evs1\<rparr>)"

definition is_india_ratings :: "string \<Rightarrow> bool" where
  "is_india_ratings url =
     (contains ''indiaratings.co.in'' url \<and> contains ''pressrelease'' (lower url))"

definition is_crisil :: "string \<Rightarrow> bool" where
  "is_crisil url = (contains ''crisil.com'' url \<and> ends_with ''.html'' (lower url))"

text \<open>\<open>download_file(url, save_path)\<close> of \<open>scraperv1.py\<close>.\<close>

definition download_file ::
  "world \<Rightarrow> string \<Rightarrow> path \<Rightarrow> (path \<times> string) list \<Rightarrow> outcome" where
  "download_file w url save_path fs =
     (if is_india_ratings url \<and> india_scraper w
      then \<lparr>ok = True, files = fs, events = [IndiaRatingsScrape]\<rparr>
      else
        let e1 = (if is_india_ratings url then [IndiaRatingsScrape] else []) in
        if is_crisil url \<and> crisil_scraper w
        then \<lparr>ok = True, files = fs, events = e1 @ [CrisilScrape]\<rparr>
        else
          let e2 = e1 @ (if is_crisil url then [CrisilScrape] else []) @ [Head];
              content_type = (case head_probe w of Some ct \<Rightarrow> lower ct | None \<Rightarrow> '''');
              is_pdf = (case head_probe w of
                          Some ct \<Rightarrow> Some (contains ''application/pdf'' (lower ct))
                        | None \<Rightarrow> None)
          in case adjust_path is_pdf content_type save_path of
               Inl e \<Rightarrow> \<lparr>ok = False, files = fs, events = e2 @ [PrintError]\<rparr>
             | Inr p \<Rightarrow> fetch w p fs e2)"

text \<open>
  \<open>download_file(url, save_path)\<close> of \<open>scraper.py\<close>: no probe, a threshold of 1000 bytes,
  and an error while reading the file back reaches the handler of the function.
\<close>

definition scraper_download_file ::
  "world \<Rightarrow> string \<Rightarrow> path \<Rightarrow> (path \<times> string) list \<Rightarrow> outcome" where
  "scraper_download_file w url save_path fs =
     (case get_body w of
        None \<Rightarrow> \<lparr>ok = False, files = fs, events = [Get, PrintError]\<rparr>
      | Some body \<Rightarrow>
          let fs1 = AList.update save_path body fs;
              evs1 = [Get, Write save_path]
          in if length body < 1000 then
               (case read_text w body of
                  None \<Rightarrow> \<lparr>ok = False, files = fs1, events = evs1 @ [PrintError]\<rparr>
                | Some content \<Rightarrow>
                    if any_in error_words (lower content)
                    then \<lparr>ok = False, files = AList.delete save_path fs1,
                          events = evs1 @ [Unlink save_path]\<rparr>
                    else \<lparr>ok = True, files = fs1, events = evs1\<rparr>)
             else \<lparr>ok = True, files = fs1, events = evs1\<rparr>)"

section \<open>The document classifier\<close>

text \<open>
  The parsed page: a text node, or a tag with its name, its attributes and its children.
  The \<open>BeautifulSoup\<close> object is the root tag, of name \<open>[document]\<close>; it has no parent.
\<close>

datatype node = Text string | Elem string "(string \<times> string) list" "node list"

fun node_name :: "node \<Rightarrow> string" where
  "node_name (Text s) = ''''"
| "node_name (Elem nm at cs) = nm"

fun children :: "node \<Rightarrow> node list" where
  "children (Text s) = []"
| "children (Elem nm at cs) = cs"

fun is_tag :: "string list \<Rightarrow> node \<Rightarrow> bool" where
  "is_tag names (Text s) = False"
| "is_tag names (Elem nm at cs) = (nm \<in> set names)"

fun has_href :: "node \<Rightarrow> bool" where
  "has_href (Text s) = False"
| "has_href (Elem nm at cs) = (map_of at ''href'' \<noteq> None)"

fun href_of :: "node \<Rightarrow> string" where
  "href_of (Text s) = ''''"
| "href_of (Elem nm at cs) = (case map_of at ''href'' of Some h \<Rightarrow> h | None \<Rightarrow> '''')"

text \<open>The strings below a node and the tags below it, both in document order.\<close>

fun strings :: "node \<Rightarrow> string list" where
  "strings (Text s) = [s]"
| "strings (Elem nm at cs) = concat (map strings cs)"

fun descendants :: "node \<Rightarrow> node list" where
  "descendants (Text s) = []"
| "descendants (Elem nm at cs) = concat (map (\<lambda>c. c # descendants c) cs)"

text \<open>\<open>tag.get_text(strip=True)\<close>: the stripped strings that are not empty, joined.\<close>

definition get_text :: "node \<Rightarrow> string" where
  "get_text n = concat (filter (\<lambda>s. s \<noteq> []) (map strip (strings n)))"

text \<open>\<open>tag.find_all(names)\<close> and \<open>tag.find_all('a', href=True)\<close>.\<close>

definition find_all :: "string list \<Rightarrow> node \<Rightarrow> node list" where
  "find_all names n = filter (is_tag names) (descendants n)"

definition find_links :: "node \<Rightarrow> node list" where
  "find_links n = filter (\<lambda>a. is_tag [''a''] a \<and> has_href a) (descendants n)"

text \<open>
  Step 1: the first tag \<open>h2\<close>, \<open>h3\<close> or \<open>h4\<close> in document order whose text, in lower case,
  contains \<open>documents\<close>, together with its ancestors, the parent first. The first
  argument is the list of ancestors of the node searched.
\<close>

definition is_docs_heading :: "node \<Rightarrow> bool" where
  "is_docs_heading n =
     (is_tag [''h2'', ''h3'', ''h4''] n \<and> contains ''documents'' (lower (get_text n)))"

fun find_docs_heading :: "node list \<Rightarrow> node \<Rightarrow> (node \<times> node list) option"
  and find_docs_heading_in :: "node list \<Rightarrow> node list \<Rightarrow> (node \<times> node list) option" where
  "find_docs_heading anc (Text s) = None"
| "find_docs_heading anc (Elem nm at cs) =
     (if is_docs_heading (Elem nm at cs) then Some (Elem nm at cs, anc)
      else find_docs_heading_in (Elem nm at cs # anc) cs)"
| "find_docs_heading_in anc [] = None"
| "find_docs_heading_in anc (c # cs) =
     (case find_docs_heading anc c of
        Some r \<Rightarrow> Some r
      | None \<Rightarrow> find_docs_heading_in anc cs)"

text \<open>
  Step 2: up to \<open>n\<close> steps up the ancestors, stopping at \<open>body\<close> or above the root, keeping
  the ancestor with the most links (the nearest one among equals).
\<close>

fun best_container :: "nat \<Rightarrow> node list \<Rightarrow> node option \<Rightarrow> nat \<Rightarrow> node option" where
  "best_container 0 ancs best best_link_count = best"
| "best_container (Suc k) [] best best_link_count = best"
| "best_container (Suc k) (container # ancs) best best_link_count =
     (if node_name container = ''body'' then best
      else if length (find_links container) > best_link_count
           then best_container k ancs (Some container) (length (find_links container))
           else best_container k ancs best best_link_count)"

text \<open>The container the first two steps settle on, if any.\<close>

definition documents_container :: "node \<Rightarrow> node option" where
  "documents_container soup =
     (case find_docs_heading_in [soup] (children soup) of
        None \<Rightarrow> None
      | Some (docs_heading, ancs) \<Rightarrow> best_container 10 ancs None 0)"

text \<open>
  Step 3. The category of a heading by its lower-case title; \<open>None\<close> for the concalls
  heading, which is skipped.
\<close>

definition heading_category :: "string \<Rightarrow> string option" where
  "heading_category title =
     (if contains ''concall'' title then None
      else if contains ''announce'' title then Some ''announcements''
      else if contains ''annual'' title then Some ''annual''
      else if contains ''credit'' title then Some ''credit_ratings''
      else Some ''other'')"

definition is_subheading :: "node \<Rightarrow> bool" where
  "is_subheading n = is_tag [''h3'', ''h4''] n"

text \<open>
  The walk \<open>while sibling: ...\<close> over the siblings after a heading ends at the next \<open>h3\<close>
  or \<open>h4\<close> tag, and also at a text node that is empty, which is false as a condition.
\<close>

definition ends_section :: "node \<Rightarrow> bool" where
  "ends_section s = (is_subheading s \<or> s = Text [])"

text \<open>
  The headings \<open>h3\<close> and \<open>h4\<close> below a list of sibling nodes, in document order, each with
  the siblings that follow it up to the end of that walk.
\<close>

fun heading_sections :: "node list \<Rightarrow> (node \<times> node list) list"
  and heading_sections_below :: "node \<Rightarrow> (node \<times> node list) list" where
  "heading_sections [] = []"
| "heading_sections (n # ns) =
     (if is_subheading n then [(n, takeWhile (\<lambda>s. \<not> ends_section s) ns)] else [])
       @ heading_sections_below n @ heading_sections ns"
| "heading_sections_below (Text s) = []"
| "heading_sections_below (Elem nm at cs) = heading_sections cs"

text \<open>
  \<open>wrapper.append(node)\<close> moves a node out of the tree. The headings are visited in
  document order, so the siblings a heading collects are still whole when it is visited;
  later headings inside them move their own siblings away. What a wrapper holds at the
  end is therefore what it collected without the siblings claimed by the headings inside
  it: after a heading that is not skipped, the nodes up to the end of its walk are gone.
\<close>

fun prune :: "node \<Rightarrow> node"
  and prune_list :: "bool \<Rightarrow> node list \<Rightarrow> node list" where
  "prune (Text s) = Text s"
| "prune (Elem nm at cs) = Elem nm at (prune_list False cs)"
| "prune_list moved [] = []"
| "prune_list moved (n # ns) =
     (if is_subheading n
        then prune n # prune_list (heading_category (lower (get_text n)) \<noteq> None) ns
      else if n = Text [] then n # prune_list False ns
      else if moved then prune_list moved ns
      else prune n # prune_list moved ns)"

text \<open>The list \<open>sections\<close>: the category and the nodes of each wrapper.\<close>

fun sections_of :: "(node \<times> node list) list \<Rightarrow> (string \<times> node list) list" where
  "sections_of [] = []"
| "sections_of ((heading_tag, section_nodes) # rest) =
     (case heading_category (lower (get_text heading_tag)) of
        None \<Rightarrow> sections_of rest
      | Some category \<Rightarrow>
          if section_nodes \<noteq> [] then (category, map prune section_nodes) # sections_of rest
          else sections_of rest)"

text \<open>
  A link as \<open>extract_documents_links\<close> emits it: the keys the materializer reads and the
  key \<open>href\<close>.
\<close>

record documents_link = doc_link +
  dl_href :: string

definition nav_texts :: "string list" where
  "nav_texts = [''all'', ''show more'', ''show all'', ''add missing'']"

text \<open>A link is skipped when its text is empty or, in lower case, a navigation text.\<close>

definition skipped :: "node \<Rightarrow> bool" where
  "skipped a = (get_text a = [] \<or> lower (get_text a) \<in> set nav_texts)"

text \<open>
  Step 4 for the links of one section. \<open>urljoin\<close> is the library function, taken as a
  parameter; it returns \<open>None\<close> where the library raises \<open>ValueError\<close>, which nothing in
  \<open>extract_documents_links\<close> catches.
\<close>

fun collect_links ::
  "(string \<Rightarrow> string \<Rightarrow> string option) \<Rightarrow> string \<Rightarrow> string \<Rightarrow> node list
     \<Rightarrow> py_error + documents_link list" where
  "collect_links urljoin base_url category [] = Inr []"
| "collect_links urljoin base_url category (a # as) =
     (if skipped a then collect_links urljoin base_url category as
      else case urljoin base_url (href_of a) of
             None \<Rightarrow> Inl ValueError
           | Some full_url \<Rightarrow>
               (case collect_links urljoin base_url category as of
                  Inl e \<Rightarrow> Inl e
                | Inr docs \<Rightarrow>
                    Inr (\<lparr>dl_category = category, dl_text = get_text a, dl_url = full_url,
                          dl_force_pdf = False, dl_href = href_of a\<rparr> # docs)))"

fun collect_sections ::
  "(string \<Rightarrow> string \<Rightarrow> string option) \<Rightarrow> string \<Rightarrow> (string \<times> node list) list
     \<Rightarrow> py_error + documents_link list" where
  "collect_sections urljoin base_url [] = Inr []"
| "collect_sections urljoin base_url ((category, section) # rest) =
     (case collect_links urljoin base_url category (find_links (Elem ''div'' [] section)) of
        Inl e \<Rightarrow> Inl e
      | Inr docs \<Rightarrow>
          (case collect_sections urljoin base_url rest of
             Inl e \<Rightarrow> Inl e
           | Inr others \<Rightarrow> Inr (docs @ others)))"

text \<open>
  \<open>extract_documents_links(soup, base_url)\<close> of \<open>scraperv1.py\<close>: the lines printed and the
  list returned, or the exception raised.
\<close>

definition extract_documents_links ::
  "(string \<Rightarrow> string \<Rightarrow> string option) \<Rightarrow> node \<Rightarrow> string
     \<Rightarrow> py_error + (string list \<times> documents_link list)" where
  "extract_documents_links urljoin soup base_url =
     (case find_docs_heading_in [soup] (children soup) of
        None \<Rightarrow> Inr ([''  [Docs] Documents heading not found''], [])
      | Some (docs_heading, ancs) \<Rightarrow>
          (case best_container 10 ancs None 0 of
             None \<Rightarrow> Inr ([''  [Docs] Container for Documents not found''], [])
           | Some container \<Rightarrow>
               let sections = sections_of (heading_sections (children container)) in
               if sections = []
               then Inr ([''  [Docs] No document sections found under Documents''], [])
               else
                 (case collect_sections urljoin base_url sections of
                    Inl e \<Rightarrow> Inl e
                  | Inr docs \<Rightarrow>
                      Inr ([''  [Docs] Found '' @ str_of_nat (length sections)
                              @ '' document sections (excluding concalls)'',
                            ''  [Docs] Total links collected (excluding concalls): ''
                              @ str_of_nat (length docs)],
                           docs))))"

subsection \<open>The classifier of \<open>scraper.py\<close>\<close>







section \<open>The modal note extractor\<close>

text \<open>
  What the browser answers during the pass of the loop for one index: the number of
  \<open>Notes\<close> buttons the query finds again (\<open>None\<close> when the query raises), the attribute
  \<open>data-title\<close> of the button (\<open>None\<close> when it is missing or reading it raises), the first
  line of the text of its row, stripped (\<open>None\<close> when it cannot be read), whether
  scrolling the button into view, the click and the scripted click succeed, whether the
  dialog becomes visible within the wait of ten seconds, and the stripped text found
  in the dialog (\<open>None\<close> when reading it raises).
\<close>

record trigger_reply =
  n_buttons :: "nat option"
  data_title :: "string option"
  row_text :: "string option"
  scroll_ok :: bool
  click_ok :: bool
  js_click_ok :: bool
  dialog_visible :: bool
  dialog_text :: "string option"

datatype note_event =
  Clicked nat string | NoDialog nat | NoText nat | Saved path | Failed nat

text \<open>The markdown files written so far and what happened, in order.\<close>

record notes_state =
  note_files :: "(path \<times> string) list"
  note_events :: "note_event list"

text \<open>
  The title of an entry: \<open>data-title\<close>, else the first line of the row, else
  \<open>Concall_\<close> and the position of the entry, counted from one.
\<close>

definition note_title :: "nat \<Rightarrow> trigger_reply \<Rightarrow> string" where
  "note_title idx reply =
     (case data_title reply of
        Some t \<Rightarrow>
          if t \<noteq> [] then t
          else (case row_text reply of
                  Some r \<Rightarrow> if r \<noteq> [] then r else ''Concall_'' @ str_of_nat (idx + 1)
                | None \<Rightarrow> ''Concall_'' @ str_of_nat (idx + 1))
      | None \<Rightarrow>
          (case row_text reply of
             Some r \<Rightarrow> if r \<noteq> [] then r else ''Concall_'' @ str_of_nat (idx + 1)
           | None \<Rightarrow> ''Concall_'' @ str_of_nat (idx + 1)))"

datatype loop_control = Break | Next

text \<open>
  One pass of the loop body of \<open>extract_concall_notes\<close> for the index \<open>idx\<close>. An exception
  inside the pass is caught by the handler of the pass, which prints and goes on with
  the next index; a dialog that does not appear is a \<open>continue\<close>.
\<close>

definition notes_step :: "trigger_reply \<Rightarrow> path \<Rightarrow> nat \<Rightarrow> notes_state \<Rightarrow> loop_control \<times> notes_state" where
  "notes_step reply notes_folder idx st =
     (case n_buttons reply of
        None \<Rightarrow> (Next, st\<lparr>note_events := note_events st @ [Failed idx]\<rparr>)
      | Some n \<Rightarrow>
          if idx \<ge> n then (Break, st)
          else
            let title = note_title idx reply in
            if \<not> scroll_ok reply
              then (Next, st\<lparr>note_events := note_events st @ [Failed idx]\<rparr>)
            else if \<not> click_ok reply \<and> \<not> js_click_ok reply
              then (Next, st\<lparr>note_events := note_events st @ [Failed idx]\<rparr>)
            else if \<not> dialog_visible reply
              then (Next, st\<lparr>note_events := note_events st @ [Clicked idx title, NoDialog idx]\<rparr>)
            else
              (case dialog_text reply of
                 None \<Rightarrow>
                   (Next, st\<lparr>note_events := note_events st @ [Clicked idx title, Failed idx]\<rparr>)
               | Some t \<Rightarrow>
                   if t = []
                   then (Next, st\<lparr>note_events := note_events st @ [Clicked idx title, NoText idx]\<rparr>)
                   else
                     let out_path = notes_folder
                           @ [clean_filename (title @ ''_concall_notes'') @ ''.md'']
                     in (Next, \<lparr>note_files = AList.update out_path t (note_files st),
                                note_events = note_events st
                                  @ [Clicked idx title, Saved out_path]\<rparr>)))"

text \<open>
  \<open>for idx in range(len(notes_buttons))\<close>: \<open>k\<close> passes are left, the next index is \<open>idx\<close>,
  and \<open>browser idx\<close> is what the browser answers during the pass for \<open>idx\<close>.
\<close>

fun notes_loop ::
  "(nat \<Rightarrow> trigger_reply) \<Rightarrow> path \<Rightarrow> nat \<Rightarrow> nat \<Rightarrow> notes_state \<Rightarrow> notes_state" where
  "notes_loop browser notes_folder idx 0 st = st"
| "notes_loop browser notes_folder idx (Suc k) st =
     (case notes_step (browser idx) notes_folder idx st of
        (Break, st') \<Rightarrow> st'
      | (Next, st') \<Rightarrow> notes_loop browser notes_folder (Suc idx) k st')"

text \<open>
  \<open>extract_concall_notes(driver, company_folder)\<close>: \<open>found\<close> is the number of buttons the
  first query finds, \<open>None\<close> when that query raises.
\<close>

definition extract_concall_notes ::
  "nat option \<Rightarrow> (nat \<Rightarrow> trigger_reply) \<Rightarrow> path \<Rightarrow> (path \<times> string) list \<Rightarrow> notes_state" where
  "extract_concall_notes found browser company_folder fs =
     (case found of
        None \<Rightarrow> \<lparr>note_files = fs, note_events = []\<rparr>
      | Some n \<Rightarrow>
          notes_loop browser (company_folder @ [''concall_notes'']) 0 n
            \<lparr>note_files = fs, note_events = []\<rparr>)"

section \<open>Example inputs\<close>


text \<open>A table with a header and a single data row.\<close>

definition one_row_table :: "html_table" where
  "one_row_table =
     \<lparr>tb_section = Some ''Peer comparison'',
      tb_parsed = Some \<lparr>df_columns = [''Name'', ''CMP'', ''P/E''],
                        df_rows = [[''TCS'', ''3500'', ''29'']]\<rparr>\<rparr>"

text \<open>
  A server that answers the probe with an HTML content type and every \<open>GET\<close> with a short
  error page, and one whose probe fails while the \<open>GET\<close> would deliver a document.
\<close>

definition error_page_world :: world where
  "error_page_world =
     \<lparr>india_scraper = False, crisil_scraper = False,
      head_probe = Some ''text/html; charset=utf-8'',
      get_body = Some ''404 Not Found'',
      read_text = Some\<rparr>"

definition failing_probe_world :: world where
  "failing_probe_world =
     \<lparr>india_scraper = False, crisil_scraper = False,
      head_probe = None,
      get_body = Some ''PK archive bytes'',
      read_text = Some\<rparr>"

text \<open>
  A link \<open><li><a href=h>t</a></li>\<close>, and a page whose Documents region has the headings
  \<open>Announcements\<close> and \<open>Annual reports\<close>, each followed by three links, the last of them
  a \<open>Show More\<close> link.
\<close>

definition link_item :: "string \<Rightarrow> string \<Rightarrow> node" where
  "link_item h t = Elem ''li'' [] [Elem ''a'' [(''href'', h)] [Text t]]"



text \<open>A page without a Documents heading, and one whose Documents region has no sub-heading.\<close>

definition plain_page :: node where
  "plain_page =
     Elem ''[document]'' []
       [Elem ''html'' []
         [Elem ''body'' []
           [Elem ''h2'' [] [Text ''Peer comparison''],
            Elem ''p'' [] [Elem ''a'' [(''href'', ''/peers'')] [Text ''All peers'']]]]]"

definition bare_region :: node where
  "bare_region =
     Elem ''section'' []
       [Elem ''h2'' [] [Text ''Documents''],
        Elem ''ul'' [] [link_item ''/a/1.pdf'' ''Board meeting outcome'']]"

definition bare_documents_page :: node where
  "bare_documents_page =
     Elem ''[document]'' [] [Elem ''html'' [] [Elem ''body'' [] [bare_region]]]"





text \<open>A stand-in for \<open>urljoin\<close> on these pages: site-relative references only.\<close>

definition join_site :: "string \<Rightarrow> string \<Rightarrow> string option" where
  "join_site base_url href = Some (''https://www.screener.in'' @ href)"

text \<open>
  Three \<open>Notes\<close> buttons: the dialogs of the first and the third open with text, the
  dialog of the second does not appear.
\<close>

definition three_notes_browser :: "nat \<Rightarrow> trigger_reply" where
  "three_notes_browser idx =
     \<lparr>n_buttons = Some 3,
      data_title = (if idx = 0 then Some ''Q1 FY25'' else if idx = 1 then Some ''Q2 FY25''
                    else Some ''Q3 FY25''),
      row_text = None,
      scroll_ok = True, click_ok = True, js_click_ok = True,
      dialog_visible = (idx \<noteq> 1),
      dialog_text = (if idx = 0 then Some ''Revenue grew 5%''
                     else if idx = 1 then None else Some ''Margins held'')\<rparr>"

section \<open>Verified properties: the file materializer\<close>



lemma icra_rewrite_keeps_force:
  "dl_force_pdf item \<Longrightarrow> snd (icra_rewrite item)"
  by (auto simp: icra_rewrite_def split: option.splits)

text \<open>
  C3: a document link whose \<open>force_pdf\<close> flag is set gets the extension \<open>.pdf\<close>, whatever
  the extension of its URL's path is.
\<close>

theorem force_pdf_chooses_pdf:
  "dl_force_pdf item \<Longrightarrow> item_ext item = ''.pdf''"
  using icra_rewrite_keeps_force [of item]
  by (cases "icra_rewrite item") (simp add: item_ext_def choose_ext_def)

text \<open>A quarterly-result link whose path ends in \<open>.aspx\<close> is saved as \<open>.pdf\<close>.\<close>

theorem force_pdf_chooses_pdf_witness:
  "dl_force_pdf \<lparr>dl_category = ''quarterly_results'',
      dl_text = ''Quarterly Result PDF - Mar 2024'',
      dl_url = ''https://www.bseindia.com/xml-data/corpfiling/AttachHis/result.aspx?id=7'',
      dl_force_pdf = True\<rparr>
   \<and> parsed_ext ''https://www.bseindia.com/xml-data/corpfiling/AttachHis/result.aspx?id=7''
       = ''.aspx''
   \<and> item_ext \<lparr>dl_category = ''quarterly_results'',
      dl_text = ''Quarterly Result PDF - Mar 2024'',
      dl_url = ''https://www.bseindia.com/xml-data/corpfiling/AttachHis/result.aspx?id=7'',
      dl_force_pdf = True\<rparr> = ''.pdf''"
proof -
  have ext: "parsed_ext ''https://www.bseindia.com/xml-data/corpfiling/AttachHis/result.aspx?id=7''
      = ''.aspx''"
    by code_simp
  show ?thesis
    using force_pdf_chooses_pdf [of "\<lparr>dl_category = ''quarterly_results'',
      dl_text = ''Quarterly Result PDF - Mar 2024'',
      dl_url = ''https://www.bseindia.com/xml-data/corpfiling/AttachHis/result.aspx?id=7'',
      dl_force_pdf = True\<rparr>"] ext
    by simp
qed







section \<open>Verified properties: the table extractor\<close>






text \<open>
  C4: a table whose frame has fewer than two rows or fewer than two columns leaves the
  state of the extractor as it was, in both scrapers: no entry is added to
  \<open>tables_saved\<close> and no CSV file is written.
\<close>

theorem small_table_skipped:
  "tb_parsed tbl = Some df \<Longrightarrow> fst (shape df) < 2 \<or> snd (shape df) < 2 \<Longrightarrow>
     process_table folder idx tbl st = st \<and> scraper_process_table folder idx tbl st = st"
  by (simp add: process_table_def scraper_process_table_def process_table_with_def)

text \<open>A table with one data row, met after one table has been saved.\<close>

theorem small_table_skipped_witness:
  "tb_parsed one_row_table
     = Some \<lparr>df_columns = [''Name'', ''CMP'', ''P/E''], df_rows = [[''TCS'', ''3500'', ''29'']]\<rparr>
   \<and> shape \<lparr>df_columns = [''Name'', ''CMP'', ''P/E''], df_rows = [[''TCS'', ''3500'', ''29'']]\<rparr>
       = (1, 3)
   \<and> process_table [''TCS'', ''financial_tables''] 4 one_row_table
        \<lparr>tables_saved = [(''Ratios'', 2, 2)], csv_files = []\<rparr>
       = \<lparr>tables_saved = [(''Ratios'', 2, 2)], csv_files = []\<rparr>
   \<and> scraper_process_table [''TCS'', ''financial_tables''] 4 one_row_table
        \<lparr>tables_saved = [(''Ratios'', 2, 2)], csv_files = []\<rparr>
       = \<lparr>tables_saved = [(''Ratios'', 2, 2)], csv_files = []\<rparr>"
proof -
  have p: "tb_parsed one_row_table
     = Some \<lparr>df_columns = [''Name'', ''CMP'', ''P/E''], df_rows = [[''TCS'', ''3500'', ''29'']]\<rparr>"
    by (simp add: one_row_table_def)
  have s: "shape \<lparr>df_columns = [''Name'', ''CMP'', ''P/E''],
      df_rows = [[''TCS'', ''3500'', ''29'']]\<rparr> = (1, 3)"
    by (simp add: shape_def)
  from s have small: "fst (shape \<lparr>df_columns = [''Name'', ''CMP'', ''P/E''],
      df_rows = [[''TCS'', ''3500'', ''29'']]\<rparr>) < 2
    \<or> snd (shape \<lparr>df_columns = [''Name'', ''CMP'', ''P/E''],
      df_rows = [[''TCS'', ''3500'', ''29'']]\<rparr>) < 2"
    by simp
  show ?thesis
    using small_table_skipped [OF p small, of "[''TCS'', ''financial_tables'']" 4
        "\<lparr>tables_saved = [(''Ratios'', 2, 2)], csv_files = []\<rparr>"] p s
    by simp
qed




section \<open>Verified properties: downloading a document\<close>

lemma fetch_error_page:
  assumes "get_body w = Some body" and "length body < 500"
    and "read_text w body = Some content" and "any_in error_words (lower content)"
  shows "fetch w p fs evs
    = \<lparr>ok = False, files = AList.delete p (AList.update p body fs),
       events = evs @ [Get, Write p, Unlink p]\<rparr>"
  using assms by (simp add: fetch_def)

lemma fetch_writes:
  "Write q \<in> set (events (fetch w p fs evs)) \<Longrightarrow> Write q \<in> set evs \<or> q = p"
  by (auto simp: fetch_def Let_def split: option.splits if_splits)

lemma download_file_writes:
  assumes "Write q \<in> set (events (download_file w url save_path fs))"
  shows "\<exists>evs. download_file w url save_path fs = fetch w q fs evs"
proof -
  let ?e1 = "if is_india_ratings url then [IndiaRatingsScrape] else []"
  let ?e2 = "?e1 @ (if is_crisil url then [CrisilScrape] else []) @ [Head]"
  let ?ct = "case head_probe w of Some ct \<Rightarrow> lower ct | None \<Rightarrow> ''''"
  let ?pdf = "case head_probe w of
      Some ct \<Rightarrow> Some (contains ''application/pdf'' (lower ct)) | None \<Rightarrow> None"
  have no_write: "Write q \<notin> set ?e2" by simp
  show ?thesis
  proof (cases "is_india_ratings url \<and> india_scraper w")
    case True
    with assms show ?thesis by (simp add: download_file_def)
  next
    case india: False
    show ?thesis
    proof (cases "is_crisil url \<and> crisil_scraper w")
      case True
      with india assms show ?thesis
        by (auto simp: download_file_def Let_def split: if_splits)
    next
      case crisil: False
      show ?thesis
      proof (cases "adjust_path ?pdf ?ct save_path")
        case (Inl e)
        with india crisil assms show ?thesis
          by (auto simp: download_file_def Let_def split: if_splits)
      next
        case (Inr p)
        with india crisil have eq: "download_file w url save_path fs = fetch w p fs ?e2"
          by (auto simp: download_file_def Let_def)
        with assms have "Write q \<in> set (events (fetch w p fs ?e2))" by simp
        from fetch_writes [OF this] no_write have "q = p" by blast
        with eq show ?thesis by blast
      qed
    qed
  qed
qed

text \<open>
  C7: when the call has written the downloaded artifact to \<open>p\<close>, the artifact is smaller
  than the threshold (500 bytes in \<open>scraperv1.py\<close>, 1000 in \<open>scraper.py\<close>) and its text,
  in lower case, contains one of the error words, then \<open>download_file\<close> returns \<open>False\<close>,
  unlinks \<open>p\<close> and no file is left at \<open>p\<close>.
\<close>

theorem error_page_deleted:
  assumes "get_body w = Some body" and "read_text w body = Some content"
    and "any_in error_words (lower content)"
  shows "(Write p \<in> set (events (download_file w url save_path fs)) \<and> length body < 500 \<longrightarrow>
           \<not> ok (download_file w url save_path fs)
         \<and> Unlink p \<in> set (events (download_file w url save_path fs))
         \<and> map_of (files (download_file w url save_path fs)) p = None)
     \<and> (length body < 1000 \<longrightarrow>
           Write save_path \<in> set (events (scraper_download_file w url save_path fs))
         \<and> \<not> ok (scraper_download_file w url save_path fs)
         \<and> Unlink save_path \<in> set (events (scraper_download_file w url save_path fs))
         \<and> map_of (files (scraper_download_file w url save_path fs)) save_path = None)"
proof (intro conjI impI)
  assume h: "Write p \<in> set (events (download_file w url save_path fs)) \<and> length body < 500"
  then obtain evs where "download_file w url save_path fs = fetch w p fs evs"
    using download_file_writes by blast
  with h assms have r: "download_file w url save_path fs
      = \<lparr>ok = False, files = AList.delete p (AList.update p body fs),
         events = evs @ [Get, Write p, Unlink p]\<rparr>"
    by (simp add: fetch_error_page)
  show "\<not> ok (download_file w url save_path fs)" by (simp add: r)
  show "Unlink p \<in> set (events (download_file w url save_path fs))" by (simp add: r)
  show "map_of (files (download_file w url save_path fs)) p = None"
    by (simp add: r AList.delete_conv')
next
  assume small: "length body < 1000"
  with assms have r: "scraper_download_file w url save_path fs
      = \<lparr>ok = False, files = AList.delete save_path (AList.update save_path body fs),
         events = [Get, Write save_path, Unlink save_path]\<rparr>"
    by (simp add: scraper_download_file_def)
  show "Write save_path \<in> set (events (scraper_download_file w url save_path fs))"
    by (simp add: r)
  show "\<not> ok (scraper_download_file w url save_path fs)" by (simp add: r)
  show "Unlink save_path \<in> set (events (scraper_download_file w url save_path fs))"
    by (simp add: r)
  show "map_of (files (scraper_download_file w url save_path fs)) save_path = None"
    by (simp add: r AList.delete_conv')
qed

text \<open>
  A server that answers with the page \<open>404 Not Found\<close>: the file is written, unlinked and
  the call returns \<open>False\<close>, in both scrapers.
\<close>

theorem error_page_deleted_witness:
  "get_body error_page_world = Some ''404 Not Found''
   \<and> read_text error_page_world ''404 Not Found'' = Some ''404 Not Found''
   \<and> any_in error_words (lower ''404 Not Found'')
   \<and> Write [''TCS'', ''announcements'', ''Report.pdf'']
       \<in> set (events (download_file error_page_world ''https://example.com/docs/report.pdf''
            [''TCS'', ''announcements'', ''Report.pdf''] []))
   \<and> length ''404 Not Found'' < 500
   \<and> \<not> ok (download_file error_page_world ''https://example.com/docs/report.pdf''
            [''TCS'', ''announcements'', ''Report.pdf''] [])
   \<and> map_of (files (download_file error_page_world ''https://example.com/docs/report.pdf''
            [''TCS'', ''announcements'', ''Report.pdf''] []))
        [''TCS'', ''announcements'', ''Report.pdf''] = None
   \<and> \<not> ok (scraper_download_file error_page_world ''https://example.com/docs/report.pdf''
            [''TCS'', ''announcements'', ''Report.pdf''] [])"
proof -
  have g: "get_body error_page_world = Some ''404 Not Found''"
    by (simp add: error_page_world_def)
  have r: "read_text error_page_world ''404 Not Found'' = Some ''404 Not Found''"
    by (simp add: error_page_world_def)
  have a: "any_in error_words (lower ''404 Not Found'')"
    by code_simp
  have wr: "Write [''TCS'', ''announcements'', ''Report.pdf'']
       \<in> set (events (download_file error_page_world ''https://example.com/docs/report.pdf''
            [''TCS'', ''announcements'', ''Report.pdf''] []))"
    by code_simp
  show ?thesis
    using error_page_deleted [OF g r a, of "[''TCS'', ''announcements'', ''Report.pdf'']"
        "''https://example.com/docs/report.pdf''" "[''TCS'', ''announcements'', ''Report.pdf'']"
        "[]"] g r a wr
    by simp
qed

text \<open>
  C10: in \<open>scraperv1.py\<close>, when the call reaches the \<open>HEAD\<close> probe, the probe raises and the
  suffix of \<open>save_path\<close>, in lower case, is none of \<open>.pdf\<close>, \<open>.html\<close>, \<open>.htm\<close>, the call
  returns \<open>False\<close> without a \<open>GET\<close> and without touching the files, whatever the \<open>GET\<close>
  would have returned.
\<close>

theorem failed_probe_fails_download:
  assumes "Head \<in> set (events (download_file w url save_path fs))"
    and "head_probe w = None"
    and "lower (path_suffix save_path) \<notin> set [''.pdf'', ''.html'', ''.htm'']"
  shows "\<not> ok (download_file w url save_path fs)
     \<and> Get \<notin> set (events (download_file w url save_path fs))
     \<and> files (download_file w url save_path fs) = fs"
proof -
  from assms(2,3) have adj: "adjust_path None '''' save_path = Inl UnboundLocalError"
    by (simp add: adjust_path_def Let_def)
  show ?thesis
  proof (cases "is_india_ratings url \<and> india_scraper w")
    case True
    with assms(1) show ?thesis by (simp add: download_file_def)
  next
    case india: False
    show ?thesis
    proof (cases "is_crisil url \<and> crisil_scraper w")
      case True
      with india assms(1) show ?thesis
        by (auto simp: download_file_def Let_def split: if_splits)
    next
      case False
      with india adj assms(2) show ?thesis
        by (auto simp: download_file_def Let_def)
    qed
  qed
qed

text \<open>
  A ZIP archive whose \<open>GET\<close> would succeed: the probe fails and the download is reported
  as failed.
\<close>

theorem failed_probe_fails_download_witness:
  "Head \<in> set (events (download_file failing_probe_world ''https://example.com/docs/results.zip''
       [''TCS'', ''announcements'', ''Results.zip''] []))
   \<and> head_probe failing_probe_world = None
   \<and> get_body failing_probe_world = Some ''PK archive bytes''
   \<and> lower (path_suffix [''TCS'', ''announcements'', ''Results.zip''])
       \<notin> set [''.pdf'', ''.html'', ''.htm'']
   \<and> \<not> ok (download_file failing_probe_world ''https://example.com/docs/results.zip''
       [''TCS'', ''announcements'', ''Results.zip''] [])
   \<and> Get \<notin> set (events (download_file failing_probe_world
       ''https://example.com/docs/results.zip'' [''TCS'', ''announcements'', ''Results.zip''] []))
   \<and> files (download_file failing_probe_world ''https://example.com/docs/results.zip''
       [''TCS'', ''announcements'', ''Results.zip''] []) = []"
proof -
  have h: "Head \<in> set (events (download_file failing_probe_world
       ''https://example.com/docs/results.zip'' [''TCS'', ''announcements'', ''Results.zip''] []))"
    by code_simp
  have p: "head_probe failing_probe_world = None"
    by (simp add: failing_probe_world_def)
  have g: "get_body failing_probe_world = Some ''PK archive bytes''"
    by (simp add: failing_probe_world_def)
  have s: "lower (path_suffix [''TCS'', ''announcements'', ''Results.zip''])
       \<notin> set [''.pdf'', ''.html'', ''.htm'']"
    by code_simp
  show ?thesis
    using failed_probe_fails_download [OF h p s] h p g s by simp
qed

section \<open>Verified properties: the document classifier\<close>

lemma find_docs_heading_none:
  "\<not> is_docs_heading n \<Longrightarrow> \<forall>d\<in>set (descendants n). \<not> is_docs_heading d \<Longrightarrow>
     find_docs_heading anc n = None"
  "\<forall>c\<in>set cs. \<not> is_docs_heading c \<and> (\<forall>d\<in>set (descendants c). \<not> is_docs_heading d) \<Longrightarrow>
     find_docs_heading_in anc cs = None"
  by (induction anc n and anc cs rule: find_docs_heading_find_docs_heading_in.induct) auto

lemma descendants_children:
  "set (descendants n) = (\<Union>c\<in>set (children n). insert c (set (descendants c)))"
  by (cases n) auto

lemma no_docs_heading:
  assumes "\<forall>t\<in>set (find_all [''h2'', ''h3'', ''h4''] soup).
      \<not> contains ''documents'' (lower (get_text t))"
  shows "find_docs_heading_in [soup] (children soup) = None"
proof (rule find_docs_heading_none(2), intro ballI)
  fix c assume c: "c \<in> set (children soup)"
  have all: "\<forall>d\<in>set (descendants soup). \<not> is_docs_heading d"
    using assms by (auto simp: find_all_def is_docs_heading_def)
  from c have "insert c (set (descendants c)) \<subseteq> set (descendants soup)"
    by (subst (2) descendants_children) blast
  with all show "\<not> is_docs_heading c \<and> (\<forall>d\<in>set (descendants c). \<not> is_docs_heading d)"
    by blast
qed

lemma heading_sections_headings:
  "map fst (heading_sections cs) = filter is_subheading (concat (map (\<lambda>c. c # descendants c) cs))"
  "map fst (heading_sections_below n) = filter is_subheading (descendants n)"
  by (induction cs and n rule: heading_sections_heading_sections_below.induct) auto

lemma heading_sections_find_all:
  "map fst (heading_sections (children container)) = find_all [''h3'', ''h4''] container"
  by (cases container)
     (simp_all add: heading_sections_headings find_all_def is_subheading_def [abs_def])

lemma no_subheadings:
  "find_all [''h3'', ''h4''] container = [] \<Longrightarrow> heading_sections (children container) = []"
  using heading_sections_find_all [of container] by simp

text \<open>
  C8: when no \<open>h2\<close>, \<open>h3\<close> or \<open>h4\<close> tag of the page has \<open>documents\<close> in its lower-case
  text, and likewise when the container of the Documents region has no \<open>h3\<close> or \<open>h4\<close> tag
  below it (or no container is found), \<open>extract_documents_links\<close> returns the empty list
  after printing one diagnostic line, and raises nothing.
\<close>

theorem no_documents_returns_empty:
  "((\<forall>t\<in>set (find_all [''h2'', ''h3'', ''h4''] soup).
        \<not> contains ''documents'' (lower (get_text t))) \<longrightarrow>
      extract_documents_links urljoin soup base_url
        = Inr ([''  [Docs] Documents heading not found''], []))
   \<and> (documents_container soup = Some container \<and> find_all [''h3'', ''h4''] container = [] \<longrightarrow>
      extract_documents_links urljoin soup base_url
        = Inr ([''  [Docs] No document sections found under Documents''], []))
   \<and> (find_docs_heading_in [soup] (children soup) \<noteq> None \<and> documents_container soup = None \<longrightarrow>
      extract_documents_links urljoin soup base_url
        = Inr ([''  [Docs] Container for Documents not found''], []))"
proof (intro conjI impI)
  assume "\<forall>t\<in>set (find_all [''h2'', ''h3'', ''h4''] soup).
      \<not> contains ''documents'' (lower (get_text t))"
  then have "find_docs_heading_in [soup] (children soup) = None"
    by (rule no_docs_heading)
  then show "extract_documents_links urljoin soup base_url
      = Inr ([''  [Docs] Documents heading not found''], [])"
    by (simp add: extract_documents_links_def)
next
  assume h: "documents_container soup = Some container
      \<and> find_all [''h3'', ''h4''] container = []"
  then have "heading_sections (children container) = []"
    by (simp add: no_subheadings)
  with h show "extract_documents_links urljoin soup base_url
      = Inr ([''  [Docs] No document sections found under Documents''], [])"
    by (auto simp: extract_documents_links_def documents_container_def split: option.splits)
next
  assume "find_docs_heading_in [soup] (children soup) \<noteq> None
      \<and> documents_container soup = None"
  then show "extract_documents_links urljoin soup base_url
      = Inr ([''  [Docs] Container for Documents not found''], [])"
    by (auto simp: extract_documents_links_def documents_container_def split: option.splits)
qed

text \<open>A page without a Documents heading and a Documents region without sub-headings.\<close>

theorem no_documents_returns_empty_witness:
  "filter (\<lambda>t. contains ''documents'' (lower (get_text t)))
      (find_all [''h2'', ''h3'', ''h4''] plain_page) = []
   \<and> extract_documents_links join_site plain_page
        ''https://www.screener.in/company/TCS/consolidated/''
        = Inr ([''  [Docs] Documents heading not found''], [])
   \<and> documents_container bare_documents_page = Some bare_region
   \<and> find_all [''h3'', ''h4''] bare_region = []
   \<and> extract_documents_links join_site bare_documents_page
        ''https://www.screener.in/company/TCS/consolidated/''
        = Inr ([''  [Docs] No document sections found under Documents''], [])"
proof -
  have f: "filter (\<lambda>t. contains ''documents'' (lower (get_text t)))
      (find_all [''h2'', ''h3'', ''h4''] plain_page) = []"
    by code_simp
  then have a: "\<forall>t\<in>set (find_all [''h2'', ''h3'', ''h4''] plain_page).
        \<not> contains ''documents'' (lower (get_text t))"
    by (simp add: filter_empty_conv)
  have b: "documents_container bare_documents_page = Some bare_region"
    by code_simp
  have c: "find_all [''h3'', ''h4''] bare_region = []"
    by code_simp
  show ?thesis
    using f a b c
      no_documents_returns_empty [where soup = plain_page and urljoin = join_site
        and base_url = "''https://www.screener.in/company/TCS/consolidated/''"
        and container = bare_region]
      no_documents_returns_empty [where soup = bare_documents_page and urljoin = join_site
        and base_url = "''https://www.screener.in/company/TCS/consolidated/''"
        and container = bare_region]
    by simp
qed










section \<open>Verified properties: the modal note extractor\<close>

text \<open>
  C9: when the button of an entry is found and clicked and its dialog does not become
  visible in time, the pass writes no file, records the entry as skipped and the loop goes
  on with the next index. A pass whose dialog appears with text writes the note under the
  cleaned title of the entry and goes on as well.
\<close>

theorem dialog_timeout_skips_entry:
  "(n_buttons (browser idx) = Some n \<and> idx < n \<and> scroll_ok (browser idx)
      \<and> (click_ok (browser idx) \<or> js_click_ok (browser idx))
      \<and> \<not> dialog_visible (browser idx) \<longrightarrow>
      notes_step (browser idx) notes_folder idx st
        = (Next, st\<lparr>note_events := note_events st
             @ [Clicked idx (note_title idx (browser idx)), NoDialog idx]\<rparr>)
      \<and> notes_loop browser notes_folder idx (Suc k) st
        = notes_loop browser notes_folder (Suc idx) k
            (st\<lparr>note_events := note_events st
               @ [Clicked idx (note_title idx (browser idx)), NoDialog idx]\<rparr>))
   \<and> (n_buttons (browser idx) = Some n \<and> idx < n \<and> scroll_ok (browser idx)
      \<and> (click_ok (browser idx) \<or> js_click_ok (browser idx))
      \<and> dialog_visible (browser idx) \<and> dialog_text (browser idx) = Some t \<and> t \<noteq> [] \<longrightarrow>
      notes_loop browser notes_folder idx (Suc k) st
        = notes_loop browser notes_folder (Suc idx) k
            \<lparr>note_files = AList.update
               (notes_folder
                  @ [clean_filename (note_title idx (browser idx) @ ''_concall_notes'') @ ''.md''])
               t (note_files st),
             note_events = note_events st
               @ [Clicked idx (note_title idx (browser idx)),
                  Saved (notes_folder
                    @ [clean_filename (note_title idx (browser idx) @ ''_concall_notes'')
                         @ ''.md''])]\<rparr>)"
proof (intro conjI impI)
  assume h: "n_buttons (browser idx) = Some n \<and> idx < n \<and> scroll_ok (browser idx)
      \<and> (click_ok (browser idx) \<or> js_click_ok (browser idx))
      \<and> \<not> dialog_visible (browser idx)"
  then show step: "notes_step (browser idx) notes_folder idx st
        = (Next, st\<lparr>note_events := note_events st
             @ [Clicked idx (note_title idx (browser idx)), NoDialog idx]\<rparr>)"
    by (auto simp: notes_step_def Let_def)
  show "notes_loop browser notes_folder idx (Suc k) st
        = notes_loop browser notes_folder (Suc idx) k
            (st\<lparr>note_events := note_events st
               @ [Clicked idx (note_title idx (browser idx)), NoDialog idx]\<rparr>)"
    by (simp add: step)
next
  assume h: "n_buttons (browser idx) = Some n \<and> idx < n \<and> scroll_ok (browser idx)
      \<and> (click_ok (browser idx) \<or> js_click_ok (browser idx))
      \<and> dialog_visible (browser idx) \<and> dialog_text (browser idx) = Some t \<and> t \<noteq> []"
  then have "notes_step (browser idx) notes_folder idx st
      = (Next, \<lparr>note_files = AList.update
               (notes_folder
                  @ [clean_filename (note_title idx (browser idx) @ ''_concall_notes'') @ ''.md''])
               t (note_files st),
             note_events = note_events st
               @ [Clicked idx (note_title idx (browser idx)),
                  Saved (notes_folder
                    @ [clean_filename (note_title idx (browser idx) @ ''_concall_notes'')
                         @ ''.md''])]\<rparr>)"
    by (auto simp: notes_step_def Let_def)
  then show "notes_loop browser notes_folder idx (Suc k) st
        = notes_loop browser notes_folder (Suc idx) k
            \<lparr>note_files = AList.update
               (notes_folder
                  @ [clean_filename (note_title idx (browser idx) @ ''_concall_notes'') @ ''.md''])
               t (note_files st),
             note_events = note_events st
               @ [Clicked idx (note_title idx (browser idx)),
                  Saved (notes_folder
                    @ [clean_filename (note_title idx (browser idx) @ ''_concall_notes'')
                         @ ''.md''])]\<rparr>"
    by simp
qed

text \<open>
  Three \<open>Notes\<close> buttons, the dialog of the second never appears: the notes of the first
  and of the third entry are clicked for and saved.
\<close>

theorem dialog_timeout_skips_entry_witness:
  "n_buttons (three_notes_browser 1) = Some 3 \<and> (1::nat) < 3
   \<and> scroll_ok (three_notes_browser 1) \<and> click_ok (three_notes_browser 1)
   \<and> \<not> dialog_visible (three_notes_browser 1)
   \<and> note_title 1 (three_notes_browser 1) = ''Q2 FY25''
   \<and> notes_loop three_notes_browser [''TCS'', ''concall_notes''] 1 (Suc 1)
        \<lparr>note_files = [([''TCS'', ''concall_notes'', ''Q1_FY25_concall_notes.md''],
                         ''Revenue grew 5%'')],
         note_events = [Clicked 0 ''Q1 FY25'',
           Saved [''TCS'', ''concall_notes'', ''Q1_FY25_concall_notes.md'']]\<rparr>
      = notes_loop three_notes_browser [''TCS'', ''concall_notes''] (Suc 1) 1
        \<lparr>note_files = [([''TCS'', ''concall_notes'', ''Q1_FY25_concall_notes.md''],
                         ''Revenue grew 5%'')],
         note_events = [Clicked 0 ''Q1 FY25'',
           Saved [''TCS'', ''concall_notes'', ''Q1_FY25_concall_notes.md''],
           Clicked 1 ''Q2 FY25'', NoDialog 1]\<rparr>
   \<and> extract_concall_notes (Some 3) three_notes_browser [''TCS''] []
      = \<lparr>note_files =
           [([''TCS'', ''concall_notes'', ''Q1_FY25_concall_notes.md''], ''Revenue grew 5%''),
            ([''TCS'', ''concall_notes'', ''Q3_FY25_concall_notes.md''], ''Margins held'')],
         note_events =
           [Clicked 0 ''Q1 FY25'',
            Saved [''TCS'', ''concall_notes'', ''Q1_FY25_concall_notes.md''],
            Clicked 1 ''Q2 FY25'', NoDialog 1,
            Clicked 2 ''Q3 FY25'',
            Saved [''TCS'', ''concall_notes'', ''Q3_FY25_concall_notes.md'']]\<rparr>"
proof -
  let ?st = "\<lparr>note_files = [([''TCS'', ''concall_notes'', ''Q1_FY25_concall_notes.md''],
                         ''Revenue grew 5%'')],
         note_events = [Clicked 0 ''Q1 FY25'',
           Saved [''TCS'', ''concall_notes'', ''Q1_FY25_concall_notes.md'']]\<rparr>"
  have n: "n_buttons (three_notes_browser 1) = Some 3"
    and s: "scroll_ok (three_notes_browser 1)"
    and c: "click_ok (three_notes_browser 1)"
    and d: "\<not> dialog_visible (three_notes_browser 1)"
    by (simp_all add: three_notes_browser_def)
  have lt: "(1::nat) < 3" by simp
  have t: "note_title 1 (three_notes_browser 1) = ''Q2 FY25''"
    by (simp add: note_title_def three_notes_browser_def)
  have all: "extract_concall_notes (Some 3) three_notes_browser [''TCS''] []
      = \<lparr>note_files =
           [([''TCS'', ''concall_notes'', ''Q1_FY25_concall_notes.md''], ''Revenue grew 5%''),
            ([''TCS'', ''concall_notes'', ''Q3_FY25_concall_notes.md''], ''Margins held'')],
         note_events =
           [Clicked 0 ''Q1 FY25'',
            Saved [''TCS'', ''concall_notes'', ''Q1_FY25_concall_notes.md''],
            Clicked 1 ''Q2 FY25'', NoDialog 1,
            Clicked 2 ''Q3 FY25'',
            Saved [''TCS'', ''concall_notes'', ''Q3_FY25_concall_notes.md'']]\<rparr>"
    by code_simp
  from n lt s c d
    dialog_timeout_skips_entry [where browser = three_notes_browser and idx = 1 and n = 3
        and notes_folder = "[''TCS'', ''concall_notes'']" and k = 1 and st = ?st]
  have "notes_loop three_notes_browser [''TCS'', ''concall_notes''] 1 (Suc 1) ?st
      = notes_loop three_notes_browser [''TCS'', ''concall_notes''] (Suc 1) 1
          (?st\<lparr>note_events := note_events ?st
             @ [Clicked 1 (note_title 1 (three_notes_browser 1)), NoDialog 1]\<rparr>)"
    by blast
  then have loop: "notes_loop three_notes_browser [''TCS'', ''concall_notes''] 1 (Suc 1) ?st
      = notes_loop three_notes_browser [''TCS'', ''concall_notes''] (Suc 1) 1
        \<lparr>note_files = [([''TCS'', ''concall_notes'', ''Q1_FY25_concall_notes.md''],
                         ''Revenue grew 5%'')],
         note_events = [Clicked 0 ''Q1 FY25'',
           Saved [''TCS'', ''concall_notes'', ''Q1_FY25_concall_notes.md''],
           Clicked 1 ''Q2 FY25'', NoDialog 1]\<rparr>"
    by (simp only: t notes_state.simps append.simps)
  show ?thesis
    by (intro conjI n lt s c d t loop all)
qed

end
